theory Spec2Isabelle
  imports Main "HOL-Library.Word"
begin

section \<open>QuickDesk: landing page and dashboard\<close>

text \<open>
  A shallow embedding of the two React components of the repository:
  \<^verbatim>\<open>src/pages/Dashboard.tsx\<close> (component \<^verbatim>\<open>Dashboard\<close>) and the landing page
  (component \<^verbatim>\<open>Index\<close>).  Component state is a record, every \<^verbatim>\<open>async\<close> function is
  split at its \<^verbatim>\<open>await\<close>s into the part that issues the backend call and the part that
  resumes with the response, and everything a component does to the outside (backend
  calls, navigation, notifications) is appended to a log in the order it happens.
\<close>

subsection \<open>JavaScript strings\<close>

text \<open>
  A JavaScript string is a sequence of UTF-16 code units; \<^verbatim>\<open>length\<close> and
  \<^verbatim>\<open>substring\<close> count code units.  \<open>js\<close> embeds an ASCII literal of the source.
\<close>

type_synonym code_unit = "16 word"

type_synonym js_string = "code_unit list"

definition js :: "string \<Rightarrow> js_string" where
  "js s = map (\<lambda>c. of_nat (of_char c)) s"

text \<open>
  \<^verbatim>\<open>String.prototype.substring(indexStart, indexEnd)\<close> for non-negative integer
  arguments: both indices are clamped to the length, and swapped when the first is
  the larger.
\<close>

definition substring :: "js_string \<Rightarrow> nat \<Rightarrow> nat \<Rightarrow> js_string" where
  "substring s indexStart indexEnd =
     (let len = length s;
          a = min indexStart len;
          b = min indexEnd len
      in take (max a b - min a b) (drop (min a b) s))"

subsection \<open>Data model\<close>

text \<open>
  \<^verbatim>\<open>interface Profile { id: string; name: string; role: 'user' | 'agent' | 'admin' }\<close>
  and \<^verbatim>\<open>interface Ticket\<close>.  The literal union types are strings at run time, and the
  code compares them as strings (\<^verbatim>\<open>===\<close>, \<^verbatim>\<open>switch\<close>), so they are strings here; the
  four status values are \<open>statuses\<close>.  The session user is \<^verbatim>\<open>any\<close>; only its
  \<^verbatim>\<open>id\<close> is read.
\<close>

record User =
  user_id :: js_string

record Profile =
  profile_id :: js_string
  profile_name :: js_string
  role :: js_string

record Category =
  category_name :: js_string

record Ticket =
  ticket_id :: js_string
  subject :: js_string
  description :: js_string
  status :: js_string
  created_at :: js_string
  upvotes :: int
  categories :: "Category option"

definition statuses :: "js_string set" where
  "statuses = {js ''open'', js ''in_progress'', js ''resolved'', js ''closed''}"

subsection \<open>Status styling\<close>

text \<open>\<^verbatim>\<open>getStatusColor\<close>: a \<^verbatim>\<open>switch\<close> over the status string with a \<^verbatim>\<open>default\<close> branch.\<close>

definition getStatusColor :: "js_string \<Rightarrow> js_string" where
  "getStatusColor s =
     (if s = js ''open'' then js ''bg-red-100 text-red-800''
      else if s = js ''in_progress'' then js ''bg-yellow-100 text-yellow-800''
      else if s = js ''resolved'' then js ''bg-green-100 text-green-800''
      else if s = js ''closed'' then js ''bg-gray-100 text-gray-800''
      else js ''bg-gray-100 text-gray-800'')"

subsection \<open>One row of the recent-tickets list\<close>

text \<open>
  What the body of \<^verbatim>\<open>tickets.map((ticket) => ...)\<close> renders for one ticket: the React
  key, the destination of the row's click handler, the subject, the description text
  (\<^verbatim>\<open>{ticket.description.substring(0, 100)}...\<close>), the status badge with its class,
  the category badge (\<^verbatim>\<open>ticket.categories && ...\<close>), the upvote count and the creation
  timestamp handed to \<^verbatim>\<open>Date\<close>.
\<close>

record ticket_row =
  row_key :: js_string
  row_target :: js_string
  row_subject :: js_string
  row_description :: js_string
  status_class :: js_string
  status_text :: js_string
  category_badge :: "js_string option"
  row_upvotes :: int
  row_created_at :: js_string

definition ticketRow :: "Ticket \<Rightarrow> ticket_row" where
  "ticketRow ticket =
     \<lparr>row_key = ticket_id ticket,
      row_target = js ''/tickets/'' @ ticket_id ticket,
      row_subject = subject ticket,
      row_description = substring (description ticket) 0 100 @ js ''...'',
      status_class = getStatusColor (status ticket),
      status_text = status ticket,
      category_badge =
        (case categories ticket of None \<Rightarrow> None | Some c \<Rightarrow> Some (category_name c)),
      row_upvotes = upvotes ticket,
      row_created_at = created_at ticket\<rparr>"

subsection \<open>The backend client\<close>

text \<open>
  The backend (\<^verbatim>\<open>supabase\<close>) is outside the repository.  A query is the value the
  builder calls \<^verbatim>\<open>from\<close>, \<^verbatim>\<open>select\<close>, \<^verbatim>\<open>eq\<close>, \<^verbatim>\<open>order\<close>, \<^verbatim>\<open>limit\<close> and \<^verbatim>\<open>single\<close>
  assemble; an order clause is a column with its \<^verbatim>\<open>ascending\<close> flag.  The select list
  is kept as its columns: \<^verbatim>\<open>*\<close>, a column of the table, or the columns of a related
  table (\<^verbatim>\<open>categories(name)\<close>).  A call resolves to a response
  \<^verbatim>\<open>{ data, error }\<close> whose \<^verbatim>\<open>data\<close> is \<^verbatim>\<open>null\<close> when the call failed; for
  \<^verbatim>\<open>auth.getUser\<close> the \<open>data\<close> of the model is \<^verbatim>\<open>data.user\<close>.
\<close>

datatype column = All_columns | Column js_string | Related js_string "js_string list"

record Query =
  table :: js_string
  columns :: "column list"
  filters :: "(js_string \<times> js_string) list"
  order_clauses :: "(js_string \<times> bool) list"
  row_limit :: "nat option"
  is_single :: bool

definition from_table :: "js_string \<Rightarrow> Query" where
  "from_table t =
     \<lparr>table = t, columns = [], filters = [], order_clauses = [], row_limit = None,
      is_single = False\<rparr>"

definition select_columns :: "column list \<Rightarrow> Query \<Rightarrow> Query" where
  "select_columns cs q = q\<lparr>columns := cs\<rparr>"

definition eq_filter :: "js_string \<Rightarrow> js_string \<Rightarrow> Query \<Rightarrow> Query" where
  "eq_filter c v q = q\<lparr>filters := filters q @ [(c, v)]\<rparr>"

definition order_by :: "js_string \<Rightarrow> bool \<Rightarrow> Query \<Rightarrow> Query" where
  "order_by c ascending q = q\<lparr>order_clauses := order_clauses q @ [(c, ascending)]\<rparr>"

definition limit_rows :: "nat \<Rightarrow> Query \<Rightarrow> Query" where
  "limit_rows n q = q\<lparr>row_limit := Some n\<rparr>"

definition single_row :: "Query \<Rightarrow> Query" where
  "single_row q = q\<lparr>is_single := True\<rparr>"

record 'a response =
  data :: "'a option"
  error :: "js_string option"

text \<open>The query of \<^verbatim>\<open>checkUser\<close> for the profile and the query of \<^verbatim>\<open>fetchTickets\<close>.\<close>

definition profileQuery :: "js_string \<Rightarrow> Query" where
  "profileQuery uid =
     single_row (eq_filter (js ''id'') uid
       (select_columns [All_columns] (from_table (js ''profiles''))))"

definition ticketsQuery :: Query where
  "ticketsQuery =
     limit_rows 5 (order_by (js ''created_at'') False
       (select_columns
          [Column (js ''id''), Column (js ''subject''), Column (js ''description''),
           Column (js ''status''), Column (js ''created_at''), Column (js ''upvotes''),
           Related (js ''categories'') [js ''name'']]
          (from_table (js ''tickets''))))"

subsection \<open>Effects and suspended calls\<close>

text \<open>
  What a component does to the outside, in the order it does it: a backend call, a
  \<^verbatim>\<open>navigate(destination)\<close>, a \<^verbatim>\<open>toast({ title, description })\<close>.  An \<^verbatim>\<open>async\<close>
  function that has issued a call is suspended at its \<^verbatim>\<open>await\<close>; \<open>awaiting\<close> lists
  the suspended continuations, and a response resumes one of them.
\<close>

datatype call = AuthGetUser | AuthSignOut | Select Query

datatype effect = Call call | Navigate js_string | Toast js_string js_string

datatype pending =
  CheckUser_getUser | CheckUser_profile | FetchTickets_select | HandleLogout_signOut
  | Index_getUser

record surface =
  awaiting :: "pending list"
  effects :: "effect list"

definition perform :: "effect \<Rightarrow> 'a surface_scheme \<Rightarrow> 'a surface_scheme" where
  "perform e s = s\<lparr>effects := effects s @ [e]\<rparr>"

definition navigate :: "js_string \<Rightarrow> 'a surface_scheme \<Rightarrow> 'a surface_scheme" where
  "navigate destination s = perform (Navigate destination) s"

definition toast :: "js_string \<Rightarrow> js_string \<Rightarrow> 'a surface_scheme \<Rightarrow> 'a surface_scheme" where
  "toast title text s = perform (Toast title text) s"

definition request :: "call \<Rightarrow> pending \<Rightarrow> 'a surface_scheme \<Rightarrow> 'a surface_scheme" where
  "request c p s = (perform (Call c) s)\<lparr>awaiting := awaiting s @ [p]\<rparr>"

definition resume ::
  "pending \<Rightarrow> ('a surface_scheme \<Rightarrow> 'a surface_scheme) \<Rightarrow> 'a surface_scheme
     \<Rightarrow> 'a surface_scheme" where
  "resume p k s =
     (if p \<in> set (awaiting s) then k (s\<lparr>awaiting := remove1 p (awaiting s)\<rparr>) else s)"

fun calls :: "effect list \<Rightarrow> call list" where
  "calls [] = []"
| "calls (Call c # es) = c # calls es"
| "calls (e # es) = calls es"

fun navigations :: "effect list \<Rightarrow> js_string list" where
  "navigations [] = []"
| "navigations (Navigate d # es) = d # navigations es"
| "navigations (e # es) = navigations es"

subsection \<open>The dashboard: state and handlers\<close>

text \<open>
  The four \<^verbatim>\<open>useState\<close> cells of \<^verbatim>\<open>Dashboard\<close> with their initial values.  The state
  updates of one continuation are applied together, and the component renders after
  the continuation has run.
\<close>

record Dashboard_state = surface +
  user :: "User option"
  profile :: "Profile option"
  tickets :: "Ticket list"
  loading :: bool

definition initial :: Dashboard_state where
  "initial =
     \<lparr>awaiting = [], effects = [], user = None, profile = None, tickets = [],
      loading = True\<rparr>"

text \<open>
  \<^verbatim>\<open>checkUser\<close>: up to its first \<^verbatim>\<open>await\<close>; from the response of \<^verbatim>\<open>getUser\<close> to the
  \<^verbatim>\<open>return\<close> or the second \<^verbatim>\<open>await\<close>; from the response of the profile query to the
  end.
\<close>

definition checkUser :: "Dashboard_state \<Rightarrow> Dashboard_state" where
  "checkUser s = request AuthGetUser CheckUser_getUser s"

definition checkUser_user :: "User response \<Rightarrow> Dashboard_state \<Rightarrow> Dashboard_state" where
  "checkUser_user r s =
     (case data r of
        None \<Rightarrow> navigate (js ''/login'') s
      | Some u \<Rightarrow>
          request (Select (profileQuery (user_id u))) CheckUser_profile (s\<lparr>user := Some u\<rparr>))"

definition checkUser_profile :: "Profile response \<Rightarrow> Dashboard_state \<Rightarrow> Dashboard_state" where
  "checkUser_profile r s = s\<lparr>profile := data r, loading := False\<rparr>"

text \<open>\<^verbatim>\<open>fetchTickets\<close>: the query, and \<^verbatim>\<open>setTickets(data || [])\<close> on its response.\<close>

definition fetchTickets :: "Dashboard_state \<Rightarrow> Dashboard_state" where
  "fetchTickets s = request (Select ticketsQuery) FetchTickets_select s"

definition fetchTickets_data ::
  "Ticket list response \<Rightarrow> Dashboard_state \<Rightarrow> Dashboard_state" where
  "fetchTickets_data r s = s\<lparr>tickets := (case data r of None \<Rightarrow> [] | Some ts \<Rightarrow> ts)\<rparr>"

text \<open>
  \<^verbatim>\<open>handleLogout\<close>: \<^verbatim>\<open>signOut\<close> resolves to \<^verbatim>\<open>{ error }\<close>, which the handler does not
  read.
\<close>

definition handleLogout :: "Dashboard_state \<Rightarrow> Dashboard_state" where
  "handleLogout s = request AuthSignOut HandleLogout_signOut s"

definition handleLogout_done :: "js_string option \<Rightarrow> Dashboard_state \<Rightarrow> Dashboard_state" where
  "handleLogout_done err s =
     toast (js ''Logged out'') (js ''You have been logged out successfully'')
       (navigate (js ''/login'') s)"

text \<open>The mount effect: \<^verbatim>\<open>useEffect(() => { checkUser(); fetchTickets(); }, [])\<close>.\<close>

definition mount :: "Dashboard_state \<Rightarrow> Dashboard_state" where
  "mount s = fetchTickets (checkUser s)"

text \<open>
  What can happen to a mounted dashboard: a response arrives for a suspended call, or
  the logout button is clicked; the button exists only in the view that is rendered
  when \<open>loading\<close> is false.
\<close>

datatype event =
  UserResolved "User response"
  | ProfileResolved "Profile response"
  | TicketsResolved "Ticket list response"
  | LogoutClicked
  | SignOutResolved "js_string option"

primrec step :: "event \<Rightarrow> Dashboard_state \<Rightarrow> Dashboard_state" where
  "step (UserResolved r) s = resume CheckUser_getUser (checkUser_user r) s"
| "step (ProfileResolved r) s = resume CheckUser_profile (checkUser_profile r) s"
| "step (TicketsResolved r) s = resume FetchTickets_select (fetchTickets_data r) s"
| "step LogoutClicked s = (if loading s then s else handleLogout s)"
| "step (SignOutResolved err) s = resume HandleLogout_signOut (handleLogout_done err) s"

primrec run :: "event list \<Rightarrow> Dashboard_state \<Rightarrow> Dashboard_state" where
  "run [] s = s"
| "run (e # es) s = run es (step e s)"

fun session_absent :: "event \<Rightarrow> bool" where
  "session_absent (UserResolved r) = (data r = None)"
| "session_absent e = True"

fun is_UserResolved :: "event \<Rightarrow> bool" where
  "is_UserResolved (UserResolved r) = True"
| "is_UserResolved e = False"

subsection \<open>The dashboard: what it renders\<close>

text \<open>
  The element tree \<^verbatim>\<open>Dashboard\<close> returns, without its styling: the loading view, or
  the header (\<^verbatim>\<open>profile?.name\<close>, \<^verbatim>\<open>profile?.role\<close>), the quick-action tiles, each
  with the destination of its click handler, and the recent-tickets card.
\<close>

record tile =
  tile_title :: js_string
  tile_description :: js_string
  tile_target :: js_string

definition createTicketTile :: tile where
  "createTicketTile =
     \<lparr>tile_title = js ''Create Ticket'',
      tile_description = js ''Submit a new support request'',
      tile_target = js ''/tickets/new''\<rparr>"

definition viewTicketsTile :: tile where
  "viewTicketsTile =
     \<lparr>tile_title = js ''View Tickets'',
      tile_description = js ''Browse all support tickets'',
      tile_target = js ''/tickets''\<rparr>"

definition adminPanelTile :: tile where
  "adminPanelTile =
     \<lparr>tile_title = js ''Admin Panel'',
      tile_description = js ''Manage tickets and users'',
      tile_target = js ''/admin''\<rparr>"

datatype ticket_section = EmptyState js_string | TicketRows "ticket_row list"

record ready_view =
  welcome_name :: "js_string option"
  role_badge :: "js_string option"
  quick_actions :: "tile list"
  recent_tickets :: ticket_section

datatype view = LoadingView js_string | ReadyView ready_view

definition Dashboard :: "Dashboard_state \<Rightarrow> view" where
  "Dashboard s =
     (if loading s then LoadingView (js ''Loading...'')
      else ReadyView
        \<lparr>welcome_name = map_option profile_name (profile s),
         role_badge = map_option role (profile s),
         quick_actions =
           [createTicketTile, viewTicketsTile]
           @ (if (case profile s of
                    None \<Rightarrow> False
                  | Some p \<Rightarrow> role p = js ''admin'' \<or> role p = js ''agent'')
              then [adminPanelTile] else []),
         recent_tickets =
           (if length (tickets s) = 0
            then EmptyState (js ''No tickets found. Create your first ticket to get started!'')
            else TicketRows (map ticketRow (tickets s)))\<rparr>)"

primrec tiles_of :: "view \<Rightarrow> tile list" where
  "tiles_of (LoadingView m) = []"
| "tiles_of (ReadyView v) = quick_actions v"

primrec rows_of :: "view \<Rightarrow> ticket_row list" where
  "rows_of (LoadingView m) = []"
| "rows_of (ReadyView v) =
     (case recent_tickets v of EmptyState m \<Rightarrow> [] | TicketRows rs \<Rightarrow> rs)"

primrec empty_state_of :: "view \<Rightarrow> js_string option" where
  "empty_state_of (LoadingView m) = None"
| "empty_state_of (ReadyView v) =
     (case recent_tickets v of EmptyState m \<Rightarrow> Some m | TicketRows rs \<Rightarrow> None)"

subsection \<open>The landing page\<close>

text \<open>
  \<^verbatim>\<open>Index\<close> has no state.  Its effect calls a local \<^verbatim>\<open>checkUser\<close>, which navigates to
  the dashboard when \<^verbatim>\<open>getUser\<close> yields a user and does nothing otherwise.  What it
  returns is the same public content on every render: two header buttons, the hero with
  two buttons, and four feature cards.
\<close>

definition Index_initial :: surface where
  "Index_initial = \<lparr>awaiting = [], effects = []\<rparr>"

definition Index_checkUser :: "surface \<Rightarrow> surface" where
  "Index_checkUser s = request AuthGetUser Index_getUser s"

definition Index_checkUser_user :: "User response \<Rightarrow> surface \<Rightarrow> surface" where
  "Index_checkUser_user r s =
     (case data r of None \<Rightarrow> s | Some u \<Rightarrow> navigate (js ''/dashboard'') s)"

definition Index_step :: "User response \<Rightarrow> surface \<Rightarrow> surface" where
  "Index_step r s = resume Index_getUser (Index_checkUser_user r) s"

record landing_view =
  header_buttons :: "(js_string \<times> js_string) list"
  hero_title :: js_string
  hero_buttons :: "(js_string \<times> js_string) list"
  features_title :: js_string
  features :: "js_string list"

definition Index :: landing_view where
  "Index =
     \<lparr>header_buttons = [(js ''Sign In'', js ''/login''), (js ''Get Started'', js ''/register'')],
      hero_title = js ''Welcome to QuickDesk'',
      hero_buttons =
        [(js ''Start Free Trial'', js ''/register''), (js ''Sign In'', js ''/login'')],
      features_title = js ''Why Choose QuickDesk?'',
      features =
        [js ''Smart Ticketing'', js ''Team Collaboration'', js ''Threaded Conversations'',
         js ''Analytics & Insights'']\<rparr>"

subsection \<open>The closed gate\<close>

text \<open>
  The states of a mounted dashboard for which no session has been found: the component
  is still loading, the only backend calls so far are the two of the mount effect, the
  only continuations that can still be suspended are theirs, and the navigation to the
  sign-in route has happened exactly when \<^verbatim>\<open>checkUser\<close> is no longer suspended.
\<close>

definition gate_closed :: "Dashboard_state \<Rightarrow> bool" where
  "gate_closed s \<longleftrightarrow>
     loading s
     \<and> calls (effects s) = [AuthGetUser, Select ticketsQuery]
     \<and> set (awaiting s) \<subseteq> {CheckUser_getUser, FetchTickets_select}
     \<and> distinct (awaiting s)
     \<and> navigations (effects s)
         = (if CheckUser_getUser \<in> set (awaiting s) then [] else [js ''/login''])"

subsection \<open>Sample data\<close>

definition sample_user :: User where
  "sample_user = \<lparr>user_id = js ''u1''\<rparr>"

definition sample_profile :: "string \<Rightarrow> Profile" where
  "sample_profile r = \<lparr>profile_id = js ''u1'', profile_name = js ''Ada'', role = js r\<rparr>"

definition sample_ticket :: "string \<Rightarrow> Ticket" where
  "sample_ticket i =
     \<lparr>ticket_id = js i, subject = js ''Printer'', description = js ''Out of toner'',
      status = js ''open'', created_at = js ''2024-01-01'', upvotes = 2, categories = None\<rparr>"

definition six_tickets :: "Ticket list" where
  "six_tickets = map sample_ticket [''t1'', ''t2'', ''t3'', ''t4'', ''t5'', ''t6'']"

definition ready :: Dashboard_state where
  "ready = initial\<lparr>loading := False\<rparr>"

definition no_session_trace :: "event list" where
  "no_session_trace =
     [TicketsResolved \<lparr>data = Some [sample_ticket ''t1''], error = None\<rparr>,
      UserResolved \<lparr>data = None, error = None\<rparr>]"

definition profile_trace :: "Profile option \<Rightarrow> event list" where
  "profile_trace p =
     [UserResolved \<lparr>data = Some sample_user, error = None\<rparr>,
      ProfileResolved \<lparr>data = p, error = None\<rparr>]"

section \<open>Properties\<close>

subsection \<open>Auxiliary facts\<close>

lemma substring_prefix: "substring s 0 n = take (min n (length s)) s"
  by (simp add: substring_def Let_def)

lemma calls_append [simp]: "calls (xs @ ys) = calls xs @ calls ys"
  by (induction xs rule: calls.induct) simp_all

lemma navigations_append [simp]: "navigations (xs @ ys) = navigations xs @ navigations ys"
  by (induction xs rule: navigations.induct) simp_all

lemmas handler_defs =
  mount_def checkUser_def checkUser_user_def checkUser_profile_def fetchTickets_def
  fetchTickets_data_def handleLogout_def handleLogout_done_def resume_def request_def
  perform_def navigate_def toast_def

text \<open>While the dashboard is loading, no profile has been stored.\<close>

lemma loading_profile_step:
  "(loading s \<longrightarrow> profile s = None) \<Longrightarrow> (loading (step e s) \<longrightarrow> profile (step e s) = None)"
  by (cases e) (auto simp: handler_defs split: option.splits)

lemma loading_profile_run:
  "(loading s \<longrightarrow> profile s = None) \<Longrightarrow> (loading (run es s) \<longrightarrow> profile (run es s) = None)"
proof (induction es arbitrary: s)
  case Nil
  then show ?case by simp
next
  case (Cons e es)
  show ?case
    unfolding run.simps
    by (rule Cons.IH) (rule loading_profile_step [OF Cons.prems])
qed

lemma mount_loading: "loading (mount initial) \<and> profile (mount initial) = None"
  by (simp add: handler_defs initial_def)

lemma admin_tile_ready:
  "\<not> loading s \<Longrightarrow>
     (adminPanelTile \<in> set (tiles_of (Dashboard s)))
       = (\<exists>p. profile s = Some p \<and> (role p = js ''admin'' \<or> role p = js ''agent''))"
  by (auto simp: Dashboard_def adminPanelTile_def createTicketTile_def viewTicketsTile_def js_def
        split: option.splits)

text \<open>The closed gate holds after the mount effect and is kept by every event that
  brings no session.\<close>

lemma gate_closed_mount:
  "gate_closed (mount initial) \<and> CheckUser_getUser \<in> set (awaiting (mount initial))"
  by (simp add: gate_closed_def handler_defs initial_def)

lemma gate_closed_step:
  assumes "gate_closed s" and "session_absent e"
  shows "gate_closed (step e s)
         \<and> (CheckUser_getUser \<in> set (awaiting (step e s))
              \<longleftrightarrow> CheckUser_getUser \<in> set (awaiting s) \<and> \<not> is_UserResolved e)"
proof (cases e)
  case (UserResolved r)
  with assms show ?thesis
    by (auto simp: gate_closed_def resume_def checkUser_user_def navigate_def perform_def)
next
  case (ProfileResolved r)
  with assms show ?thesis
    by (auto simp: gate_closed_def resume_def)
next
  case (TicketsResolved r)
  with assms show ?thesis
    by (auto simp: gate_closed_def resume_def fetchTickets_data_def)
next
  case LogoutClicked
  with assms show ?thesis
    by (simp add: gate_closed_def)
next
  case (SignOutResolved err)
  with assms show ?thesis
    by (auto simp: gate_closed_def resume_def)
qed

lemma gate_closed_run:
  "gate_closed s \<Longrightarrow> list_all session_absent es \<Longrightarrow>
     gate_closed (run es s)
     \<and> (CheckUser_getUser \<in> set (awaiting (run es s))
          \<longleftrightarrow> CheckUser_getUser \<in> set (awaiting s) \<and> \<not> list_ex is_UserResolved es)"
proof (induction es arbitrary: s)
  case Nil
  then show ?case by simp
next
  case (Cons e es)
  from Cons.prems have e: "session_absent e" and es: "list_all session_absent es"
    by simp_all
  note st = gate_closed_step [OF Cons.prems(1) e]
  from Cons.IH [OF conjunct1 [OF st] es] st show ?case
    by auto
qed

subsection \<open>Status styling and description text\<close>

text \<open>
  Claim C1.  \<open>getStatusColor\<close> is a total function of its argument alone: each of the
  four status values has its own fixed style token, the token returned is never the
  empty string, and every string outside the four status values gets the token of
  \<open>closed\<close>.
\<close>

theorem getStatusColor_total:
  "getStatusColor (js ''open'') = js ''bg-red-100 text-red-800''
   \<and> getStatusColor (js ''in_progress'') = js ''bg-yellow-100 text-yellow-800''
   \<and> getStatusColor (js ''resolved'') = js ''bg-green-100 text-green-800''
   \<and> getStatusColor (js ''closed'') = js ''bg-gray-100 text-gray-800''
   \<and> getStatusColor s \<noteq> []
   \<and> (s \<notin> statuses \<longrightarrow> getStatusColor s = getStatusColor (js ''closed''))"
  by (simp add: getStatusColor_def statuses_def js_def)

theorem getStatusColor_total_witness:
  "js ''archived'' \<notin> statuses
   \<and> getStatusColor (js ''archived'') = getStatusColor (js ''closed'')
   \<and> getStatusColor (js ''archived'') = js ''bg-gray-100 text-gray-800''"
  using getStatusColor_total [of "js ''archived''"]
  by (simp add: statuses_def js_def)

text \<open>
  Claim C2.  For every description, the rendered description text is the prefix of
  length \<open>min 100 (length d)\<close> of the description followed by the three-unit ellipsis
  \<open>...\<close>; the ellipsis is there also when the description is empty or has at most 100
  units, where the prefix is the whole description.
\<close>

theorem description_truncated:
  "row_description (ticketRow t)
     = take (min 100 (length (description t))) (description t) @ js ''...''
   \<and> length (row_description (ticketRow t)) = min 100 (length (description t)) + 3
   \<and> (if length (description t) \<le> 100
      then row_description (ticketRow t) = description t @ js ''...''
      else row_description (ticketRow t) = take 100 (description t) @ js ''...'')"
  by (simp add: ticketRow_def substring_prefix js_def min_def)

subsection \<open>What the dashboard shows\<close>

text \<open>
  Claim C3.  In every state the mounted dashboard can reach, whatever responses arrive
  and in whatever order, the admin-panel tile is among the rendered tiles if and only if
  a profile is stored and its role is \<open>admin\<close> or \<open>agent\<close>; with no profile, and with
  any other role (\<open>user\<close> among them), the tile is not rendered.
\<close>

theorem admin_tile_gate:
  "(adminPanelTile \<in> set (tiles_of (Dashboard (run es (mount initial)))))
     = (\<exists>p. profile (run es (mount initial)) = Some p
            \<and> (role p = js ''admin'' \<or> role p = js ''agent''))"
proof (cases "loading (run es (mount initial))")
  case True
  have "profile (run es (mount initial)) = None"
    using loading_profile_run [of "mount initial" es] mount_loading True by simp
  with True show ?thesis by (simp add: Dashboard_def)
next
  case False
  then show ?thesis by (rule admin_tile_ready)
qed

theorem admin_tile_gate_witness:
  "adminPanelTile
     \<in> set (tiles_of (Dashboard (run (profile_trace (Some (sample_profile ''admin''))) (mount initial))))
   \<and> adminPanelTile
     \<in> set (tiles_of (Dashboard (run (profile_trace (Some (sample_profile ''agent''))) (mount initial))))
   \<and> adminPanelTile
     \<notin> set (tiles_of (Dashboard (run (profile_trace (Some (sample_profile ''user''))) (mount initial))))
   \<and> adminPanelTile
     \<notin> set (tiles_of (Dashboard (run (profile_trace None) (mount initial))))
   \<and> \<not> loading (run (profile_trace None) (mount initial))"
  using admin_tile_gate [of "profile_trace (Some (sample_profile ''admin''))"]
    admin_tile_gate [of "profile_trace (Some (sample_profile ''agent''))"]
    admin_tile_gate [of "profile_trace (Some (sample_profile ''user''))"]
    admin_tile_gate [of "profile_trace None"]
  by (simp add: profile_trace_def sample_profile_def sample_user_def handler_defs initial_def
        js_def)

text \<open>
  Claim C8.  When the dashboard is ready (not loading) and its ticket list is empty, it
  renders the empty-state message and no ticket row; this view differs from the loading
  view, and from the view of every loading state, which carries no empty-state message.
\<close>

theorem empty_state_rendered:
  "\<not> loading s \<Longrightarrow> tickets s = [] \<Longrightarrow>
     empty_state_of (Dashboard s)
       = Some (js ''No tickets found. Create your first ticket to get started!'')
     \<and> rows_of (Dashboard s) = []
     \<and> Dashboard s \<noteq> LoadingView (js ''Loading...'')
     \<and> (loading s' \<longrightarrow> Dashboard s' \<noteq> Dashboard s \<and> empty_state_of (Dashboard s') = None)"
  by (simp add: Dashboard_def)

theorem empty_state_rendered_witness:
  "\<not> loading ready \<and> tickets ready = []
   \<and> empty_state_of (Dashboard ready)
       = Some (js ''No tickets found. Create your first ticket to get started!'')
   \<and> rows_of (Dashboard ready) = []
   \<and> loading initial
   \<and> Dashboard initial \<noteq> Dashboard ready"
  using empty_state_rendered [of ready initial]
  by (simp add: ready_def initial_def)

text \<open>
  Claim C10.  When the dashboard is ready and its ticket list is not empty, the rows it
  renders are the tickets of the list, one row per ticket and in the order of the list:
  nothing is dropped, merged or moved.  The list is the \<open>data\<close> of the response as it
  came: with a session, the rows rendered after a response with a non-empty list are
  the tickets of that list, so a response longer than five tickets is rendered in full.
\<close>

theorem rows_pass_through:
  "\<not> loading s \<Longrightarrow> tickets s \<noteq> [] \<Longrightarrow> ts \<noteq> [] \<Longrightarrow>
     rows_of (Dashboard s) = map ticketRow (tickets s)
     \<and> length (rows_of (Dashboard s)) = length (tickets s)
     \<and> map row_key (rows_of (Dashboard s)) = map ticket_id (tickets s)
     \<and> empty_state_of (Dashboard s) = None
     \<and> tickets (fetchTickets_data \<lparr>data = Some ts, error = None\<rparr> s') = ts
     \<and> rows_of (Dashboard (run [UserResolved \<lparr>data = Some u, error = None\<rparr>,
                                 ProfileResolved p,
                                 TicketsResolved \<lparr>data = Some ts, error = None\<rparr>]
                             (mount initial)))
       = map ticketRow ts"
  by (simp add: Dashboard_def handler_defs initial_def ticketRow_def comp_def)

theorem rows_pass_through_witness:
  "\<not> loading (fetchTickets_data \<lparr>data = Some six_tickets, error = None\<rparr> ready)
   \<and> tickets (fetchTickets_data \<lparr>data = Some six_tickets, error = None\<rparr> ready) \<noteq> []
   \<and> six_tickets \<noteq> []
   \<and> length (rows_of (Dashboard
        (fetchTickets_data \<lparr>data = Some six_tickets, error = None\<rparr> ready))) = 6
   \<and> map row_key (rows_of (Dashboard
        (fetchTickets_data \<lparr>data = Some six_tickets, error = None\<rparr> ready)))
       = [js ''t1'', js ''t2'', js ''t3'', js ''t4'', js ''t5'', js ''t6'']
   \<and> length (rows_of (Dashboard
        (run [UserResolved \<lparr>data = Some sample_user, error = None\<rparr>,
              ProfileResolved \<lparr>data = None, error = None\<rparr>,
              TicketsResolved \<lparr>data = Some six_tickets, error = None\<rparr>] (mount initial)))) = 6"
  using rows_pass_through
    [of "fetchTickets_data \<lparr>data = Some six_tickets, error = None\<rparr> ready" six_tickets ready
        sample_user "\<lparr>data = None, error = None\<rparr>"]
  by (simp add: fetchTickets_data_def ready_def initial_def six_tickets_def sample_ticket_def
        Dashboard_def ticketRow_def)

subsection \<open>The ticket query\<close>

text \<open>
  Claim C5.  \<open>fetchTickets\<close> issues one query: on the table \<open>tickets\<close>, selecting
  exactly \<open>id\<close>, \<open>subject\<close>, \<open>description\<close>, \<open>status\<close>, \<open>created_at\<close>, \<open>upvotes\<close> and the
  \<open>name\<close> of the related category, with no filter, ordered by \<open>created_at\<close> descending,
  limited to 5 rows.  A row shows a category badge exactly when its ticket has a
  category, and then the badge is the category's name.
\<close>

theorem tickets_request:
  "effects (fetchTickets s) = effects s @ [Call (Select ticketsQuery)]
   \<and> table ticketsQuery = js ''tickets''
   \<and> columns ticketsQuery =
       [Column (js ''id''), Column (js ''subject''), Column (js ''description''),
        Column (js ''status''), Column (js ''created_at''), Column (js ''upvotes''),
        Related (js ''categories'') [js ''name'']]
   \<and> filters ticketsQuery = []
   \<and> order_clauses ticketsQuery = [(js ''created_at'', False)]
   \<and> row_limit ticketsQuery = Some 5
   \<and> \<not> is_single ticketsQuery
   \<and> category_badge (ticketRow t) = map_option category_name (categories t)
   \<and> (category_badge (ticketRow t) = None) = (categories t = None)"
  by (simp add: fetchTickets_def request_def perform_def ticketsQuery_def limit_rows_def
        order_by_def select_columns_def from_table_def ticketRow_def split: option.splits)

subsection \<open>The session gate of the dashboard\<close>

text \<open>
  Claim C4.  Take a mounted dashboard and any sequence of events in which no response
  of the session check carries a user.  The mount effect has issued the session check
  and the ticket query; after it no backend call is issued at all (no profile query,
  nothing else).  Once the session check has resolved, the dashboard has navigated to
  \<open>/login\<close>, once.  Whether or not the ticket response has arrived, the dashboard
  renders the loading view and no ticket row.
\<close>

theorem no_session_redirect:
  assumes "list_all session_absent es"
  shows "effects (mount initial) = [Call AuthGetUser, Call (Select ticketsQuery)]
     \<and> calls (effects (run es (mount initial))) = calls (effects (mount initial))
     \<and> navigations (effects (run es (mount initial)))
         = (if list_ex is_UserResolved es then [js ''/login''] else [])
     \<and> Dashboard (run es (mount initial)) = LoadingView (js ''Loading...'')
     \<and> rows_of (Dashboard (run es (mount initial))) = []"
proof -
  have m: "effects (mount initial) = [Call AuthGetUser, Call (Select ticketsQuery)]"
    by (simp add: handler_defs initial_def)
  from gate_closed_run [OF conjunct1 [OF gate_closed_mount] assms] gate_closed_mount
  have g: "gate_closed (run es (mount initial))"
    and a: "CheckUser_getUser \<in> set (awaiting (run es (mount initial)))
              \<longleftrightarrow> \<not> list_ex is_UserResolved es"
    by simp_all
  from g a m show ?thesis
    by (simp add: gate_closed_def Dashboard_def)
qed

theorem no_session_redirect_witness:
  "list_all session_absent no_session_trace
   \<and> calls (effects (run no_session_trace (mount initial))) = [AuthGetUser, Select ticketsQuery]
   \<and> navigations (effects (run no_session_trace (mount initial))) = [js ''/login'']
   \<and> tickets (run no_session_trace (mount initial)) = [sample_ticket ''t1'']
   \<and> rows_of (Dashboard (run no_session_trace (mount initial))) = []"
  using no_session_redirect [of no_session_trace]
  by (simp add: no_session_trace_def handler_defs initial_def)

subsection \<open>Failed backend calls\<close>

text \<open>
  Claim C6.  A failed call is a response with an error and no data, and no handler
  reads the error.  A failed ticket query leaves the dashboard in the very state that
  an empty result leaves it in, with an empty ticket list.  A failed session check is
  a missing session: the dashboard navigates to \<open>/login\<close>.  A failed profile query
  stores no profile and ends loading.  A failed sign-out is handled as a successful
  one.  With a session, a failed profile query and a failed ticket query, the dashboard
  renders the ready view with the two public tiles and the empty-state message.  Every
  handler is a total function of the state and the response.
\<close>

theorem failures_degrade:
  "step (TicketsResolved \<lparr>data = None, error = Some e\<rparr>) s
     = step (TicketsResolved \<lparr>data = Some [], error = None\<rparr>) s
   \<and> tickets (fetchTickets_data \<lparr>data = None, error = Some e\<rparr> s) = []
   \<and> step (UserResolved \<lparr>data = None, error = Some e\<rparr>) s
     = step (UserResolved \<lparr>data = None, error = None\<rparr>) s
   \<and> effects (checkUser_user \<lparr>data = None, error = Some e\<rparr> s)
     = effects s @ [Navigate (js ''/login'')]
   \<and> step (ProfileResolved \<lparr>data = None, error = Some e\<rparr>) s
     = step (ProfileResolved \<lparr>data = None, error = None\<rparr>) s
   \<and> profile (checkUser_profile \<lparr>data = None, error = Some e\<rparr> s) = None
   \<and> \<not> loading (checkUser_profile \<lparr>data = None, error = Some e\<rparr> s)
   \<and> step (SignOutResolved (Some e)) s = step (SignOutResolved None) s
   \<and> Dashboard (run [UserResolved \<lparr>data = Some u, error = None\<rparr>,
                      ProfileResolved \<lparr>data = None, error = Some e\<rparr>,
                      TicketsResolved \<lparr>data = None, error = Some e\<rparr>] (mount initial))
     = ReadyView
         \<lparr>welcome_name = None, role_badge = None,
          quick_actions = [createTicketTile, viewTicketsTile],
          recent_tickets =
            EmptyState (js ''No tickets found. Create your first ticket to get started!'')\<rparr>"
  by (simp add: handler_defs initial_def Dashboard_def)

subsection \<open>Sign-out\<close>

text \<open>
  Claim C7.  Clicking the logout button of a ready dashboard and then receiving the
  result of the sign-out, whether it carries an error or not, adds exactly these
  effects, in this order: the sign-out call, the navigation to \<open>/login\<close>, and the
  notification \<open>Logged out\<close>.
\<close>

theorem logout_regardless:
  "\<not> loading s \<Longrightarrow>
     effects (run [LogoutClicked, SignOutResolved err] s)
       = effects s @ [Call AuthSignOut, Navigate (js ''/login''),
                      Toast (js ''Logged out'') (js ''You have been logged out successfully'')]"
  by (simp add: handler_defs)

theorem logout_regardless_witness:
  "\<not> loading ready
   \<and> effects (run [LogoutClicked, SignOutResolved (Some (js ''network error''))] ready)
       = [Call AuthSignOut, Navigate (js ''/login''),
          Toast (js ''Logged out'') (js ''You have been logged out successfully'')]
   \<and> effects (run [LogoutClicked, SignOutResolved None] ready)
       = effects (run [LogoutClicked, SignOutResolved (Some (js ''network error''))] ready)"
  using logout_regardless [of ready "Some (js ''network error'')"]
    logout_regardless [of ready None]
  by (simp add: ready_def initial_def)

subsection \<open>The session gate of the landing page\<close>

text \<open>
  Claim C9.  After the landing page has mounted and its session check has resolved: if
  the response carries a user, the page has navigated to \<open>/dashboard\<close>; if it carries
  none, the page has not navigated anywhere.  In both cases the only backend call is the
  session check, and what the page renders is its public content, with the sign-in and
  register buttons.
\<close>

theorem landing_session_gate:
  "effects (Index_step r (Index_checkUser Index_initial))
     = (case data r of
          None \<Rightarrow> [Call AuthGetUser]
        | Some u \<Rightarrow> [Call AuthGetUser, Navigate (js ''/dashboard'')])
   \<and> navigations (effects (Index_step r (Index_checkUser Index_initial)))
     = (if data r = None then [] else [js ''/dashboard''])
   \<and> awaiting (Index_step r (Index_checkUser Index_initial)) = []
   \<and> header_buttons Index
     = [(js ''Sign In'', js ''/login''), (js ''Get Started'', js ''/register'')]
   \<and> hero_title Index = js ''Welcome to QuickDesk''"
  by (simp add: Index_step_def Index_checkUser_def Index_checkUser_user_def Index_initial_def
        resume_def request_def perform_def navigate_def Index_def split: option.splits)

end
